theory Spec2Isabelle
  imports Complex_Main "HOL-Library.Sublist"
begin

section \<open>Data model of \<^verbatim>\<open>src/data_processing/wrangler.py\<close>\<close>

text \<open>
  The wrangler works on pandas data frames. A cell of a frame is a string, a number, the
  missing-value marker NaN, or Python's \<^verbatim>\<open>None\<close> (which only the row-wise currency conversion
  produces). Numbers are modelled by real numbers: the arithmetic of the code (one
  multiplication per record, the linear interpolation of \<^verbatim>\<open>numpy.percentile\<close>) is read as
  exact arithmetic, and NaN is a value of its own for which every comparison is false.

  A frame is its list of column labels and its list of rows; a row is its index label (the
  \<^verbatim>\<open>id\<close> of the raw files, or the position after \<^verbatim>\<open>ignore_index=True\<close>) and its values,
  aligned with the column labels. Column labels are taken to be unique, as
  \<^verbatim>\<open>read_csv\<close> makes them.

  The calls of pandas, numpy and \<^verbatim>\<open>os\<close> are modelled as far as the wrangler uses them; each
  definition names the call it stands for, and every exception the call can raise there is an
  error value. The configuration (\<^verbatim>\<open>data_conf\<close>) and the paths are parameters.
\<close>

datatype cell = Str string | Num real | NaN | PyNone

type_synonym row = "cell \<times> cell list"

record frame =
  columns :: "string list"
  rows :: "row list"

datatype error =
    KeyError "string list"
  | TypeError
  | AttributeError
  | ValueError
  | FileNotFoundError string
  | FileExistsError string
  | IsADirectoryError string
  | BadZipFile string

text \<open>The value of a row in a column; a label the row does not have reads as NaN (this is
  what \<^verbatim>\<open>pd.concat\<close> fills in for a column that a file lacks).\<close>

definition cell_at :: "string list \<Rightarrow> cell list \<Rightarrow> string \<Rightarrow> cell" where
  "cell_at cols vs c = (case map_of (zip cols vs) c of Some v \<Rightarrow> v | None \<Rightarrow> NaN)"

definition column :: "frame \<Rightarrow> string \<Rightarrow> cell list" where
  "column d c = map (\<lambda>r. cell_at (columns d) (snd r) c) (rows d)"

text \<open>The labels of \<open>cs\<close> that are not columns of the frame: what pandas reports in a
  \<^verbatim>\<open>KeyError\<close>.\<close>

definition missing_labels :: "frame \<Rightarrow> string list \<Rightarrow> string list" where
  "missing_labels d cs = filter (\<lambda>c. c \<notin> set (columns d)) cs"

text \<open>\<^verbatim>\<open>ignore_index=True\<close>: the surviving rows are relabelled 0, 1, 2, ...\<close>

definition reset_index :: "row list \<Rightarrow> row list" where
  "reset_index rs = map (\<lambda>(i, r). (Num (of_nat i), snd r)) (enumerate 0 rs)"

subsection \<open>The configuration (\<^verbatim>\<open>data_conf\<close>, resolved once before the run)\<close>

record data_conf =
  keep_columns :: "string list"
  drop_rows_countries :: "string list"
  drop_rows_nan :: "string list"
  drop_rows_duplicates :: "string list"
  price_lower :: real
  price_upper :: real

section \<open>Currency conversion: \<^verbatim>\<open>_convert_to_usd\<close>\<close>

text \<open>The exchange-rate table of the source. Its USD entry is the Python integer 1, the
  others are floats; the difference shows only when the amount is not a number.\<close>

datatype rate = IntRate int | FloatRate real

definition currency_dict :: "(string \<times> rate) list" where
  "currency_dict =
     [(''USD'', IntRate 1),
      (''PEN'', FloatRate 0.2863),
      (''ARS'', FloatRate 0.0143),
      (''UYU'', FloatRate 0.0239),
      (''COP'', FloatRate 0.00027)]"

fun rate_value :: "rate \<Rightarrow> real" where
  "rate_value (IntRate n) = of_int n"
| "rate_value (FloatRate x) = x"

text \<open>Python's \<^verbatim>\<open>amount * rate\<close>: a product of numbers, NaN for a NaN amount, string
  repetition for a string and an integer, and a \<^verbatim>\<open>TypeError\<close> otherwise.\<close>

fun py_mul :: "cell \<Rightarrow> rate \<Rightarrow> error + cell" where
  "py_mul (Num a) r = Inr (Num (a * rate_value r))"
| "py_mul NaN r = Inr NaN"
| "py_mul (Str s) (IntRate n) = Inr (Str (concat (replicate (nat n) s)))"
| "py_mul (Str s) (FloatRate x) = Inl TypeError"
| "py_mul PyNone r = Inl TypeError"

text \<open>\<^verbatim>\<open>if currency_code in currency_dict: return amount * currency_dict[currency_code]\<close>;
  the function has no other branch, so it returns \<^verbatim>\<open>None\<close> for every other code. Only a
  string can be a key of the table.\<close>

fun convert_to_usd :: "cell \<Rightarrow> cell \<Rightarrow> error + cell" where
  "convert_to_usd amount (Str currency_code) =
     (case map_of currency_dict currency_code of
        Some r \<Rightarrow> py_mul amount r
      | None \<Rightarrow> Inr PyNone)"
| "convert_to_usd amount currency_code = Inr PyNone"

section \<open>Row Filter: \<^verbatim>\<open>_drop_rows\<close>\<close>

text \<open>\<^verbatim>\<open>Series.isin(countries)\<close> for a list of country names, and \<^verbatim>\<open>isna\<close>.\<close>

definition isin :: "cell \<Rightarrow> string list \<Rightarrow> bool" where
  "isin v xs = (case v of Str s \<Rightarrow> s \<in> set xs | _ \<Rightarrow> False)"

definition isna :: "cell \<Rightarrow> bool" where
  "isna v = (v = NaN \<or> v = PyNone)"

text \<open>\<^verbatim>\<open>DataFrame.empty\<close>: no rows or no columns.\<close>

definition df_empty :: "frame \<Rightarrow> bool" where
  "df_empty d = (columns d = [] \<or> rows d = [])"

text \<open>\<^verbatim>\<open>keep='first'\<close>: a row is dropped when its key has been seen in an earlier row.\<close>

fun keep_first :: "('r \<Rightarrow> 'k) \<Rightarrow> 'k list \<Rightarrow> 'r list \<Rightarrow> 'r list" where
  "keep_first key seen [] = []"
| "keep_first key seen (r # rs) =
     (if key r \<in> set seen then keep_first key seen rs
      else r # keep_first key (key r # seen) rs)"

text \<open>\<^verbatim>\<open>df[~df["l1"].isin(data_conf.drop_rows.countries)]\<close>; the index labels stay.\<close>

definition drop_countries :: "string list \<Rightarrow> frame \<Rightarrow> error + frame" where
  "drop_countries countries d =
     (if ''l1'' \<notin> set (columns d) then Inl (KeyError [''l1''])
      else Inr (d\<lparr>rows := filter (\<lambda>r. \<not> isin (cell_at (columns d) (snd r) ''l1'') countries) (rows d)\<rparr>))"

text \<open>\<^verbatim>\<open>df.dropna(subset=..., how='any', ignore_index=True)\<close>.\<close>

definition dropna :: "string list \<Rightarrow> frame \<Rightarrow> error + frame" where
  "dropna ks d =
     (case missing_labels d ks of
        m # ms \<Rightarrow> Inl (KeyError (m # ms))
      | [] \<Rightarrow> Inr (d\<lparr>rows := reset_index
          (filter (\<lambda>r. \<not> list_ex (\<lambda>c. isna (cell_at (columns d) (snd r) c)) ks) (rows d))\<rparr>))"

text \<open>\<^verbatim>\<open>df.drop_duplicates(subset=..., keep='first', ignore_index=...)\<close>. Without a subset the
  key of a row is the whole row. pandas returns an empty frame as it is, before it
  looks at the subset; on a frame with rows, an unknown label is a \<^verbatim>\<open>KeyError\<close> and an empty
  subset fails when the per-column codes are unpacked.\<close>

definition drop_duplicates :: "string list option \<Rightarrow> bool \<Rightarrow> frame \<Rightarrow> error + frame" where
  "drop_duplicates ks_opt ignore_index d =
     (if df_empty d then Inr d
      else case ks_opt of
        None \<Rightarrow>
          (let kept = keep_first snd [] (rows d)
           in Inr (d\<lparr>rows := if ignore_index then reset_index kept else kept\<rparr>))
      | Some ks \<Rightarrow>
          (case missing_labels d ks of
             m # ms \<Rightarrow> Inl (KeyError (m # ms))
           | [] \<Rightarrow>
               if ks = [] then Inl ValueError
               else
                 (let kept = keep_first (\<lambda>r. map (cell_at (columns d) (snd r)) ks) [] (rows d)
                  in Inr (d\<lparr>rows := if ignore_index then reset_index kept else kept\<rparr>))))"

definition drop_rows :: "data_conf \<Rightarrow> frame \<Rightarrow> error + frame" where
  "drop_rows conf d =
     (case drop_countries (drop_rows_countries conf) d of
        Inl e \<Rightarrow> Inl e
      | Inr d1 \<Rightarrow>
          (case dropna (drop_rows_nan conf) d1 of
             Inl e \<Rightarrow> Inl e
           | Inr d2 \<Rightarrow> drop_duplicates (Some (drop_rows_duplicates conf)) True d2))"

section \<open>Currency Normalizer and Outlier Trimmer: \<^verbatim>\<open>_convert_price_to_usd\<close>\<close>

text \<open>The first error of a list of results, as a loop that raises would give it.\<close>

fun collect :: "(error + 'a) list \<Rightarrow> error + 'a list" where
  "collect [] = Inr []"
| "collect (x # xs) =
     (case x of
        Inl e \<Rightarrow> Inl e
      | Inr v \<Rightarrow> (case collect xs of Inl e \<Rightarrow> Inl e | Inr vs \<Rightarrow> Inr (v # vs)))"

text \<open>\<^verbatim>\<open>df.apply(lambda x: self._convert_to_usd(x["price"], x["currency"]), axis=1)\<close> on a
  frame that has rows: each row is looked up by label (a \<^verbatim>\<open>KeyError\<close> for a label that
  is no column) and converted.\<close>

definition apply_convert :: "frame \<Rightarrow> error + cell list" where
  "apply_convert d =
     (if ''price'' \<notin> set (columns d) then Inl (KeyError [''price''])
      else if ''currency'' \<notin> set (columns d) then Inl (KeyError [''currency''])
      else collect (map (\<lambda>r. convert_to_usd (cell_at (columns d) (snd r) ''price'')
                                             (cell_at (columns d) (snd r) ''currency'')) (rows d)))"

text \<open>The column pandas builds from the results: with a string among them, or with nothing
  but \<^verbatim>\<open>None\<close>, it is an object column that keeps the values; otherwise it is a float
  column and \<^verbatim>\<open>None\<close> becomes NaN.\<close>

definition is_str :: "cell \<Rightarrow> bool" where
  "is_str v = (case v of Str s \<Rightarrow> True | _ \<Rightarrow> False)"

definition infer_series :: "cell list \<Rightarrow> cell list" where
  "infer_series vs =
     (if list_ex is_str vs \<or> list_all (\<lambda>v. v = PyNone) vs then vs
      else map (\<lambda>v. if v = PyNone then NaN else v) vs)"

text \<open>\<^verbatim>\<open>df[c] = values\<close>: the column is replaced where it stands, or appended.\<close>

definition set_column :: "string \<Rightarrow> cell list \<Rightarrow> frame \<Rightarrow> frame" where
  "set_column c vs d =
     (let cols = (if c \<in> set (columns d) then columns d else columns d @ [c])
      in \<lparr>columns = cols,
          rows = map (\<lambda>(r, v). (fst r, map (\<lambda>k. if k = c then v else cell_at (columns d) (snd r) k) cols))
                   (zip (rows d) vs)\<rparr>)"

text \<open>\<^verbatim>\<open>df.drop(columns=...)\<close>.\<close>

definition drop_columns :: "string list \<Rightarrow> frame \<Rightarrow> error + frame" where
  "drop_columns cs d =
     (case missing_labels d cs of
        m # ms \<Rightarrow> Inl (KeyError (m # ms))
      | [] \<Rightarrow>
          (let cols = filter (\<lambda>k. k \<notin> set cs) (columns d)
           in Inr \<lparr>columns = cols,
                   rows = map (\<lambda>r. (fst r, map (cell_at (columns d) (snd r)) cols)) (rows d)\<rparr>))"

text \<open>Lines 135 to 138, the Currency Normalizer. On an empty frame \<^verbatim>\<open>apply\<close> with
  \<^verbatim>\<open>result_type="expand"\<close> calls nothing and returns a copy of the frame; assigning a frame
  to one label takes its only column (here without any value) and is a \<^verbatim>\<open>ValueError\<close> when
  it has none or several.\<close>

definition standardize_currency :: "frame \<Rightarrow> error + frame" where
  "standardize_currency d =
     (if df_empty d then
        (if length (columns d) = 1 then
           drop_columns [''price'', ''currency''] (set_column ''price_usd'' [] d)
         else Inl ValueError)
      else
        (case apply_convert d of
           Inl e \<Rightarrow> Inl e
         | Inr vs \<Rightarrow>
             drop_columns [''price'', ''currency''] (set_column ''price_usd'' (infer_series vs) d)))"

text \<open>\<^verbatim>\<open>numpy.percentile(a, q)\<close>, method linear: the value at the position
  \<open>(n - 1) * q / 100\<close> of the sorted values, interpolated between its two neighbours. It
  refuses a \<open>q\<close> outside 0..100, cannot compute on an object column or on no values, and is
  NaN as soon as one value is NaN.\<close>

definition nums :: "cell list \<Rightarrow> real list" where
  "nums vs = concat (map (\<lambda>v. case v of Num x \<Rightarrow> [x] | _ \<Rightarrow> []) vs)"

definition lerp_sorted :: "real list \<Rightarrow> real \<Rightarrow> real" where
  "lerp_sorted s h =
     (let lo = nat \<lfloor>h\<rfloor>; hi = min (lo + 1) (length s - 1)
      in s ! lo + (s ! hi - s ! lo) * (h - of_nat lo))"

definition percentile :: "cell list \<Rightarrow> real \<Rightarrow> error + cell" where
  "percentile a q =
     (if q < 0 \<or> 100 < q then Inl ValueError
      else if list_ex (\<lambda>v. is_str v \<or> v = PyNone) a then Inl TypeError
      else if a = [] then Inl ValueError
      else if list_ex (\<lambda>v. v = NaN) a then Inr NaN
      else Inr (Num (lerp_sorted (sort (nums a)) (of_nat (length a - 1) * q / 100))))"

text \<open>The comparisons of a float column with a bound; they are false when either side is
  not a number.\<close>

fun cell_ge :: "cell \<Rightarrow> cell \<Rightarrow> bool" where
  "cell_ge (Num x) (Num y) = (y \<le> x)"
| "cell_ge u v = False"

fun cell_le :: "cell \<Rightarrow> cell \<Rightarrow> bool" where
  "cell_le (Num x) (Num y) = (x \<le> y)"
| "cell_le u v = False"

text \<open>Lines 141 to 143, the Outlier Trimmer; the index labels stay.\<close>

definition drop_outliers :: "data_conf \<Rightarrow> frame \<Rightarrow> error + frame" where
  "drop_outliers conf d =
     (if ''price_usd'' \<notin> set (columns d) then Inl (KeyError [''price_usd''])
      else case percentile (column d ''price_usd'') (price_lower conf) of
        Inl e \<Rightarrow> Inl e
      | Inr p_lo \<Rightarrow>
          (case percentile (column d ''price_usd'') (price_upper conf) of
             Inl e \<Rightarrow> Inl e
           | Inr p_hi \<Rightarrow>
               Inr (d\<lparr>rows := filter (\<lambda>r. cell_ge (cell_at (columns d) (snd r) ''price_usd'') p_lo \<and>
                                           cell_le (cell_at (columns d) (snd r) ''price_usd'') p_hi)
                                      (rows d)\<rparr>)))"

definition convert_price_to_usd :: "data_conf \<Rightarrow> frame \<Rightarrow> error + frame" where
  "convert_price_to_usd conf d =
     (case standardize_currency d of Inl e \<Rightarrow> Inl e | Inr d1 \<Rightarrow> drop_outliers conf d1)"

section \<open>\<^verbatim>\<open>clean_data\<close>\<close>

text \<open>\<^verbatim>\<open>df[data_conf.keep_columns]\<close>.\<close>

definition select_columns :: "string list \<Rightarrow> frame \<Rightarrow> error + frame" where
  "select_columns ks d =
     (case missing_labels d ks of
        m # ms \<Rightarrow> Inl (KeyError (m # ms))
      | [] \<Rightarrow> Inr \<lparr>columns = ks,
                  rows = map (\<lambda>r. (fst r, map (cell_at (columns d) (snd r)) ks)) (rows d)\<rparr>)"

definition clean_data :: "data_conf \<Rightarrow> frame \<Rightarrow> error + frame" where
  "clean_data conf d =
     (case select_columns (keep_columns conf) d of
        Inl e \<Rightarrow> Inl e
      | Inr d1 \<Rightarrow>
          (case drop_rows conf d1 of
             Inl e \<Rightarrow> Inl e
           | Inr d2 \<Rightarrow> convert_price_to_usd conf d2))"

section \<open>Files: \<^verbatim>\<open>ingest_data\<close>, \<^verbatim>\<open>save_data\<close>, \<^verbatim>\<open>wrangle_data\<close>, \<^verbatim>\<open>load_data\<close>\<close>

text \<open>
  The file system is a map from paths to files and a set of directories. A file is a table
  (header and records) stored as a zip-compressed CSV, as the raw files are, or as a plain
  CSV, as \<^verbatim>\<open>to_csv\<close> writes it. Permissions, disk space and parent directories are not
  modelled.
\<close>

datatype csv_file = ZipCsv "string list" "cell list list" | PlainCsv "string list" "cell list list"

record world =
  files :: "string \<Rightarrow> csv_file option"
  dirs :: "string set"

record wrangler =
  raw_data_path :: "string list"
  processed_data_path :: string
  df :: "frame option"

definition path_exists :: "world \<Rightarrow> string \<Rightarrow> bool" where
  "path_exists w p = (files w p \<noteq> None \<or> p \<in> dirs w)"

text \<open>\<^verbatim>\<open>pd.read_csv(file_path, compression='zip', low_memory=False, index_col="id")\<close>: the
  \<^verbatim>\<open>id\<close> column becomes the index and is no column of the frame.\<close>

definition read_csv :: "world \<Rightarrow> string \<Rightarrow> error + frame" where
  "read_csv w file_path =
     (case files w file_path of
        None \<Rightarrow>
          (if file_path \<in> dirs w then Inl (IsADirectoryError file_path)
           else Inl (FileNotFoundError file_path))
      | Some (PlainCsv header recs) \<Rightarrow> Inl (BadZipFile file_path)
      | Some (ZipCsv header recs) \<Rightarrow>
          (if ''id'' \<notin> set header then Inl ValueError
           else
             (let cols = filter (\<lambda>c. c \<noteq> ''id'') header
              in Inr \<lparr>columns = cols,
                      rows = map (\<lambda>vs. (cell_at header vs ''id'', map (cell_at header vs) cols)) recs\<rparr>)))"

text \<open>\<^verbatim>\<open>pd.concat(frames)\<close>: the rows of the frames one after the other, over the union of
  their columns in the order of first appearance; no frame at all is a \<^verbatim>\<open>ValueError\<close>.\<close>

definition concat_frames :: "frame list \<Rightarrow> error + frame" where
  "concat_frames frames =
     (if frames = [] then Inl ValueError
      else
        (let cols = keep_first id [] (concat (map columns frames))
         in Inr \<lparr>columns = cols,
                 rows = concat (map (\<lambda>f. map (\<lambda>r. (fst r, map (cell_at (columns f) (snd r)) cols)) (rows f))
                                    frames)\<rparr>))"

definition ingest_data :: "world \<Rightarrow> wrangler \<Rightarrow> error + frame" where
  "ingest_data w self =
     (case collect (map (read_csv w) (raw_data_path self)) of
        Inl e \<Rightarrow> Inl e
      | Inr frames \<Rightarrow>
          (case concat_frames frames of
             Inl e \<Rightarrow> Inl e
           | Inr d \<Rightarrow> drop_duplicates None False d))"

text \<open>\<^verbatim>\<open>os.path.dirname\<close>: the path up to its last slash, without trailing slashes unless
  it consists of slashes.\<close>

definition dirname :: "string \<Rightarrow> string" where
  "dirname p =
     (let head = rev (dropWhile (\<lambda>c. c \<noteq> CHR ''/'') (rev p))
      in if head \<noteq> [] \<and> \<not> list_all (\<lambda>c. c = CHR ''/'') head
         then rev (dropWhile (\<lambda>c. c = CHR ''/'') (rev head))
         else head)"

text \<open>\<^verbatim>\<open>os.makedirs(name, exist_ok=True)\<close>: the empty name and the name of a file are
  errors.\<close>

definition makedirs :: "world \<Rightarrow> string \<Rightarrow> error + world" where
  "makedirs w name =
     (if name = [] then Inl (FileNotFoundError name)
      else if files w name \<noteq> None then Inl (FileExistsError name)
      else Inr (w\<lparr>dirs := insert name (dirs w)\<rparr>))"

text \<open>\<^verbatim>\<open>df.to_csv(path, index=False)\<close>: the columns and the values, without the index.\<close>

definition to_csv :: "world \<Rightarrow> string \<Rightarrow> frame \<Rightarrow> error + world" where
  "to_csv w p d =
     (if p \<in> dirs w then Inl (IsADirectoryError p)
      else Inr (w\<lparr>files := (files w)(p \<mapsto> PlainCsv (columns d) (map snd (rows d)))\<rparr>))"

text \<open>\<^verbatim>\<open>save_data\<close> returns nothing: the result is the error it raised, if any, and the file
  system it leaves. Without a frame (no argument and \<^verbatim>\<open>self.df\<close> is \<^verbatim>\<open>None\<close>) the call of
  \<^verbatim>\<open>to_csv\<close> on \<^verbatim>\<open>None\<close> fails, after the directory has been made.\<close>

definition save_data :: "world \<Rightarrow> wrangler \<Rightarrow> frame option \<Rightarrow> error option \<times> world" where
  "save_data w self d_arg =
     (let d = (case d_arg of None \<Rightarrow> df self | Some x \<Rightarrow> Some x)
      in case makedirs w (dirname (processed_data_path self)) of
           Inl e \<Rightarrow> (Some e, w)
         | Inr w1 \<Rightarrow>
             (case d of
                None \<Rightarrow> (Some AttributeError, w1)
              | Some x \<Rightarrow>
                  (case to_csv w1 (processed_data_path self) x of
                     Inl e \<Rightarrow> (Some e, w1)
                   | Inr w2 \<Rightarrow> (None, w2))))"

text \<open>\<^verbatim>\<open>wrangle_data\<close>: the result or the error, the object and the file system afterwards.
  \<^verbatim>\<open>clean_data\<close> stores its result in \<^verbatim>\<open>self.df\<close>, and \<^verbatim>\<open>wrangle_data\<close> stores it again.\<close>

definition wrangle_data ::
  "data_conf \<Rightarrow> world \<Rightarrow> wrangler \<Rightarrow> (error + frame) \<times> wrangler \<times> world" where
  "wrangle_data conf w self =
     (case ingest_data w self of
        Inl e \<Rightarrow> (Inl e, self, w)
      | Inr d \<Rightarrow>
          (case clean_data conf d of
             Inl e \<Rightarrow> (Inl e, self, w)
           | Inr cleaned \<Rightarrow>
               (let self1 = self\<lparr>df := Some cleaned\<rparr>
                in case save_data w self1 None of
                     (Some e, w1) \<Rightarrow> (Inl e, self1, w1)
                   | (None, w1) \<Rightarrow> (Inr cleaned, self1, w1))))"

text \<open>\<^verbatim>\<open>__post_init__\<close> runs when the object is made. When the processed file exists it calls
  \<^verbatim>\<open>pd.read_csv(self.processed_data_path, index=False)\<close>; \<^verbatim>\<open>read_csv\<close> has no parameter
  \<^verbatim>\<open>index\<close> (it is a parameter of \<^verbatim>\<open>to_csv\<close>), so the call is a \<^verbatim>\<open>TypeError\<close> before any
  file is read.\<close>

definition post_init :: "world \<Rightarrow> wrangler \<Rightarrow> error + wrangler" where
  "post_init w self =
     (if path_exists w (processed_data_path self) then Inl TypeError
      else Inr (self\<lparr>df := None\<rparr>))"

definition load_data ::
  "data_conf \<Rightarrow> world \<Rightarrow> wrangler \<Rightarrow> bool \<Rightarrow> (error + frame) \<times> wrangler \<times> world" where
  "load_data conf w self use_exist =
     (if use_exist then
        (case df self of
           Some d \<Rightarrow> (Inr d, self, w)
         | None \<Rightarrow> wrangle_data conf w self)
      else wrangle_data conf w self)"

text \<open>Making a \<^verbatim>\<open>DataWrangler()\<close> and calling \<^verbatim>\<open>load_data\<close> on it, as the script does.\<close>

definition run :: "data_conf \<Rightarrow> world \<Rightarrow> wrangler \<Rightarrow> bool \<Rightarrow> (error + frame) \<times> world" where
  "run conf w self use_exist =
     (case post_init w self of
        Inl e \<Rightarrow> (Inl e, w)
      | Inr self1 \<Rightarrow> (case load_data conf w self1 use_exist of (res, self2, w1) \<Rightarrow> (res, w1)))"

section \<open>The Row Filter as the specification words it\<close>

text \<open>The two row-wise criteria of a row, and pandas' \<^verbatim>\<open>duplicated(keep='first')\<close> mask of a
  list of keys.\<close>

definition category_ok :: "data_conf \<Rightarrow> string list \<Rightarrow> cell list \<Rightarrow> bool" where
  "category_ok conf cols vs = (\<not> isin (cell_at cols vs ''l1'') (drop_rows_countries conf))"

definition required_ok :: "data_conf \<Rightarrow> string list \<Rightarrow> cell list \<Rightarrow> bool" where
  "required_ok conf cols vs = (\<not> list_ex (\<lambda>c. isna (cell_at cols vs c)) (drop_rows_nan conf))"

definition key_of :: "data_conf \<Rightarrow> string list \<Rightarrow> cell list \<Rightarrow> cell list" where
  "key_of conf cols vs = map (cell_at cols vs) (drop_rows_duplicates conf)"

fun duplicated :: "'k list \<Rightarrow> 'k list \<Rightarrow> bool list" where
  "duplicated seen [] = []"
| "duplicated seen (k # ks) = (k \<in> set seen) # duplicated (k # seen) ks"

text \<open>All three criteria evaluated on the population before any filtering, and intersected:
  a record stays when its category is not excluded, none of its required values is missing
  and no earlier record of the unfiltered data has its key.\<close>

definition independent_survivors :: "data_conf \<Rightarrow> frame \<Rightarrow> cell list list" where
  "independent_survivors conf d =
     map snd (filter (\<lambda>(dup, vs). \<not> dup \<and> category_ok conf (columns d) vs \<and> required_ok conf (columns d) vs)
               (zip (duplicated [] (map (key_of conf (columns d)) (map snd (rows d)))) (map snd (rows d))))"

text \<open>The Row Filter with the missing-value rule fired before the category rule.\<close>

definition drop_rows_nan_first :: "data_conf \<Rightarrow> frame \<Rightarrow> error + frame" where
  "drop_rows_nan_first conf d =
     (case dropna (drop_rows_nan conf) d of
        Inl e \<Rightarrow> Inl e
      | Inr d1 \<Rightarrow>
          (case drop_countries (drop_rows_countries conf) d1 of
             Inl e \<Rightarrow> Inl e
           | Inr d2 \<Rightarrow> drop_duplicates (Some (drop_rows_duplicates conf)) True d2))"

section \<open>Example data\<close>

text \<open>Six listings: two in an excluded country, two without a latitude, three at the same
  coordinates.\<close>

definition listings_conf :: data_conf where
  "listings_conf =
     \<lparr>keep_columns = [''l1'', ''lat'', ''lon'', ''price'', ''currency''],
      drop_rows_countries = [''Ecuador''],
      drop_rows_nan = [''lat'', ''lon'', ''price''],
      drop_rows_duplicates = [''lat'', ''lon''],
      price_lower = 0,
      price_upper = 100\<rparr>"

definition listings :: frame where
  "listings =
     \<lparr>columns = [''l1'', ''lat'', ''lon'', ''price'', ''currency''],
      rows =
        [(Str ''a'', [Str ''Ecuador'', Num 1, Num 1, Num 10, Str ''USD'']),
         (Str ''b'', [Str ''Peru'', Num 1, Num 1, Num 100, Str ''PEN'']),
         (Str ''c'', [Str ''Ecuador'', NaN, Num 2, Num 30, Str ''USD'']),
         (Str ''d'', [Str ''Peru'', NaN, Num 3, Num 40, Str ''PEN'']),
         (Str ''e'', [Str ''Peru'', Num 1, Num 1, Num 5, Str ''USD'']),
         (Str ''f'', [Str ''Uruguay'', Num 4, Num 5, Num 1000, Str ''UYU''])]\<rparr>"

definition listings_filtered :: frame where
  "listings_filtered =
     \<lparr>columns = [''l1'', ''lat'', ''lon'', ''price'', ''currency''],
      rows =
        [(Num 0, [Str ''Peru'', Num 1, Num 1, Num 100, Str ''PEN'']),
         (Num 1, [Str ''Uruguay'', Num 4, Num 5, Num 1000, Str ''UYU''])]\<rparr>"




text \<open>A raw file of three listings, the wrangler that reads it, what the pipeline makes of it,
  the file system after the run, and a wrangler whose second raw file does not exist.\<close>

definition listing_world :: world where
  "listing_world =
     \<lparr>files =
        [''data/raw/pe.zip'' \<mapsto>
           ZipCsv [''id'', ''l1'', ''lat'', ''lon'', ''price'', ''currency'', ''title'']
             [[Str ''p1'', Str ''Peru'', Num 1, Num 1, Num 100, Str ''PEN'', Str ''flat''],
              [Str ''p2'', Str ''Peru'', Num 2, Num 2, Num 200, Str ''PEN'', Str ''house''],
              [Str ''u1'', Str ''Uruguay'', Num 4, Num 5, Num 1000, Str ''UYU'', Str ''flat'']]],
      dirs = {''data'', ''data/raw''}\<rparr>"

definition listing_wrangler :: wrangler where
  "listing_wrangler =
     \<lparr>raw_data_path = [''data/raw/pe.zip''],
      processed_data_path = ''data/processed/clean.csv'',
      df = None\<rparr>"

definition listing_ingested :: frame where
  "listing_ingested =
     \<lparr>columns = [''l1'', ''lat'', ''lon'', ''price'', ''currency'', ''title''],
      rows =
        [(Str ''p1'', [Str ''Peru'', Num 1, Num 1, Num 100, Str ''PEN'', Str ''flat'']),
         (Str ''p2'', [Str ''Peru'', Num 2, Num 2, Num 200, Str ''PEN'', Str ''house'']),
         (Str ''u1'', [Str ''Uruguay'', Num 4, Num 5, Num 1000, Str ''UYU'', Str ''flat''])]\<rparr>"

definition listing_cleaned :: frame where
  "listing_cleaned =
     \<lparr>columns = [''l1'', ''lat'', ''lon'', ''price_usd''],
      rows =
        [(Num 0, [Str ''Peru'', Num 1, Num 1, Num 28.63]),
         (Num 1, [Str ''Peru'', Num 2, Num 2, Num 57.26]),
         (Num 2, [Str ''Uruguay'', Num 4, Num 5, Num 23.9])]\<rparr>"

definition processed_world :: world where
  "processed_world =
     \<lparr>files = (files listing_world)
        (''data/processed/clean.csv'' \<mapsto>
           PlainCsv [''l1'', ''lat'', ''lon'', ''price_usd'']
             [[Str ''Peru'', Num 1, Num 1, Num 28.63],
              [Str ''Peru'', Num 2, Num 2, Num 57.26],
              [Str ''Uruguay'', Num 4, Num 5, Num 23.9]]),
      dirs = {''data/processed'', ''data'', ''data/raw''}\<rparr>"

definition missing_wrangler :: wrangler where
  "missing_wrangler =
     \<lparr>raw_data_path = [''data/raw/pe.zip'', ''data/raw/co.zip''],
      processed_data_path = ''data/processed/clean.csv'',
      df = None\<rparr>"

text \<open>Two prices, the second in a currency that the table does not have, and their
  normalization.\<close>

definition peru_prices :: frame where
  "peru_prices =
     \<lparr>columns = [''l1'', ''price'', ''currency''],
      rows = [(Num 0, [Str ''Peru'', Num 100, Str ''PEN'']),
              (Num 1, [Str ''Peru'', Num 50, Str ''EUR''])]\<rparr>"

definition peru_normalized :: frame where
  "peru_normalized =
     \<lparr>columns = [''l1'', ''price_usd''],
      rows = [(Num 0, [Str ''Peru'', Num 28.63]), (Num 1, [Str ''Peru'', NaN])]\<rparr>"

text \<open>The filtered listings with their normalized prices, a configuration that trims at the
  quartiles, and five normalized prices before and after that trim.\<close>

definition listings_priced :: frame where
  "listings_priced =
     \<lparr>columns = [''l1'', ''lat'', ''lon'', ''price_usd''],
      rows =
        [(Num 0, [Str ''Peru'', Num 1, Num 1, Num 28.63]),
         (Num 1, [Str ''Uruguay'', Num 4, Num 5, Num 23.9])]\<rparr>"




section \<open>Properties of the currency conversion\<close>

text \<open>
  C2. A record with amount 100 and currency code PEN has the normalized price 28.63, and for
  every currency code of the exchange-rate table (USD 1, PEN 0.2863, ARS 0.0143, UYU 0.0239,
  COP 0.00027, and no other code) the normalized price of an amount is the amount multiplied
  by the multiplier of the code.
\<close>

theorem convert_to_usd_table:
  "convert_to_usd (Num 100) (Str ''PEN'') = Inr (Num 28.63) \<and>
   map (\<lambda>(c, r). (c, rate_value r)) currency_dict =
     [(''USD'', 1), (''PEN'', 0.2863), (''ARS'', 0.0143), (''UYU'', 0.0239), (''COP'', 0.00027)] \<and>
   (\<forall>r. map_of currency_dict code = Some r \<longrightarrow>
      convert_to_usd (Num amount) (Str code) = Inr (Num (amount * rate_value r)))"
  by (simp add: currency_dict_def)

theorem convert_to_usd_table_witness:
  "map_of currency_dict ''COP'' = Some (FloatRate 0.00027) \<and>
   convert_to_usd (Num 2000000) (Str ''COP'') = Inr (Num 540)"
  using convert_to_usd_table [of "''COP''" 2000000]
  by (simp add: currency_dict_def)

text \<open>
  C5. For a record whose currency code is not a key of the exchange-rate table, the conversion
  returns \<^verbatim>\<open>None\<close>: it raises nothing, applies no multiplier and does not pass the amount
  through, whatever the amount is.
\<close>

theorem convert_to_usd_unknown_code:
  "map_of currency_dict code = None \<Longrightarrow> convert_to_usd amount (Str code) = Inr PyNone"
  by simp

theorem convert_to_usd_unknown_code_witness:
  "map_of currency_dict ''EUR'' = None \<and> convert_to_usd (Num 50) (Str ''EUR'') = Inr PyNone"
  using convert_to_usd_unknown_code [of "''EUR''" "Num 50"]
  by (simp add: currency_dict_def)

section \<open>Auxiliary facts\<close>

lemmas eval_defs = drop_rows_def drop_rows_nan_first_def drop_countries_def dropna_def drop_duplicates_def cell_at_def isin_def isna_def
  missing_labels_def reset_index_def df_empty_def enumerate_eq_zip independent_survivors_def category_ok_def required_ok_def key_of_def






lemma keep_first_set: "set (keep_first key seen rs) \<subseteq> set rs"
  by (induction rs arbitrary: seen) auto

lemma keep_first_map: "map f (keep_first (\<lambda>r. k (f r)) seen rs) = keep_first k seen (map f rs)"
  by (induction rs arbitrary: seen) auto

lemma keep_first_keys: "key ` set (keep_first key seen rs) = key ` set rs - set seen"
  by (induction rs arbitrary: seen) auto

lemma map_snd_reset_index: "map snd (reset_index rs) = map snd rs"
proof -
  have "map snd (reset_index rs) = map (\<lambda>x. snd (snd x)) (zip [0..<length rs] rs)"
    by (simp add: reset_index_def enumerate_eq_zip comp_def case_prod_unfold)
  also have "\<dots> = map snd (map snd (zip [0..<length rs] rs))"
    by (simp only: map_map comp_def)
  also have "\<dots> = map snd rs"
    by (simp only: map_snd_zip length_upt diff_zero)
  finally show ?thesis .
qed

lemma reset_index_cong: "map snd xs = map snd ys \<Longrightarrow> reset_index xs = reset_index ys"
proof -
  assume h: "map snd xs = map snd ys"
  have "reset_index xs = map (\<lambda>(i, v). (Num (of_nat i), v)) (enumerate 0 (map snd xs))" for xs :: "row list"
    by (simp add: reset_index_def enumerate_map_upt case_prod_unfold comp_def enumerate_eq_zip zip_map2)
  then show ?thesis using h by simp
qed

lemma independent_in_sequential:
  "set seen' \<subseteq> set seen \<Longrightarrow>
   set (map snd (filter (\<lambda>(dup, v). \<not> dup \<and> P v) (zip (duplicated seen (map key vs)) vs)))
     \<subseteq> set (keep_first key seen' (filter P vs))"
proof (induction vs arbitrary: seen seen')
  case Nil
  show ?case by simp
next
  case (Cons v vs)
  have tl1: "set (map snd (filter (\<lambda>(dup, v). \<not> dup \<and> P v) (zip (duplicated (key v # seen) (map key vs)) vs)))
     \<subseteq> set (keep_first key (key v # seen') (filter P vs))"
    by (rule Cons.IH) (use Cons.prems in auto)
  have tl2: "set (map snd (filter (\<lambda>(dup, v). \<not> dup \<and> P v) (zip (duplicated (key v # seen) (map key vs)) vs)))
     \<subseteq> set (keep_first key seen' (filter P vs))"
    by (rule Cons.IH) (use Cons.prems in auto)
  show ?case using tl1 tl2 Cons.prems by auto
qed

lemma frame_eqI: "columns a = columns b \<Longrightarrow> rows a = rows b \<Longrightarrow> a = (b::frame)"
  by simp

lemma map_snd_filter: "map snd (filter (\<lambda>r. P (snd r)) rs) = filter P (map snd rs)"
  by (induction rs) auto

lemma drop_duplicates_vals:
  assumes "drop_duplicates (Some ks) True a = Inr out" and "columns a \<noteq> []"
  shows "columns out = columns a \<and>
         map snd (rows out) = keep_first (\<lambda>vs. map (cell_at (columns a) vs) ks) [] (map snd (rows a))"
proof (cases "rows a = []")
  case True
  with assms show ?thesis by (simp add: drop_duplicates_def df_empty_def)
next
  case False
  with assms have out: "out = a\<lparr>rows := reset_index (keep_first (\<lambda>r. map (cell_at (columns a) (snd r)) ks) [] (rows a))\<rparr>"
    by (auto simp: drop_duplicates_def df_empty_def split: list.splits if_splits)
  show ?thesis
    unfolding out
    using keep_first_map [of snd "\<lambda>vs. map (cell_at (columns a) vs) ks" "[]" "rows a"]
    by (simp add: map_snd_reset_index)
qed

lemma drop_duplicates_vals_cong:
  assumes "columns a = columns b" and "columns a \<noteq> []" and "map snd (rows a) = map snd (rows b)"
  shows "drop_duplicates (Some ks) True a = drop_duplicates (Some ks) True (b::frame)"
proof (cases "rows a = []")
  case True
  with assms(3) have "rows b = []" by simp
  with True assms(1) have "a = b" by (intro frame_eqI) simp_all
  then show ?thesis by simp
next
  case False
  with assms(3) have nb: "rows b \<noteq> []" by auto
  have "map snd (keep_first (\<lambda>r. map (cell_at (columns a) (snd r)) ks) [] (rows a)) =
        map snd (keep_first (\<lambda>r. map (cell_at (columns a) (snd r)) ks) [] (rows b))"
    using keep_first_map [of snd "\<lambda>vs. map (cell_at (columns a) vs) ks" "[]" "rows a"]
          keep_first_map [of snd "\<lambda>vs. map (cell_at (columns a) vs) ks" "[]" "rows b"] assms(3)
    by simp
  then have "reset_index (keep_first (\<lambda>r. map (cell_at (columns a) (snd r)) ks) [] (rows a)) =
        reset_index (keep_first (\<lambda>r. map (cell_at (columns a) (snd r)) ks) [] (rows b))"
    by (rule reset_index_cong)
  moreover have "a\<lparr>rows := X\<rparr> = b\<lparr>rows := X\<rparr>" for X
    using assms(1) by (intro frame_eqI) simp_all
  ultimately show ?thesis
    using False nb assms(1,2)
    by (simp add: drop_duplicates_def df_empty_def missing_labels_def split: list.splits)
qed

lemma collect_Inr: "collect xs = Inr ys \<Longrightarrow> xs = map Inr ys"
  by (induction xs arbitrary: ys) (auto split: sum.splits)


lemma listing_ingest:
  "ingest_data listing_world listing_wrangler = Inr listing_ingested"
  by (simp add: ingest_data_def listing_world_def listing_wrangler_def listing_ingested_def
                read_csv_def concat_frames_def drop_duplicates_def df_empty_def cell_at_def)

lemmas eval_clean = clean_data_def select_columns_def convert_price_to_usd_def standardize_currency_def
  apply_convert_def infer_series_def is_str_def set_column_def drop_columns_def drop_outliers_def
  percentile_def nums_def lerp_sorted_def column_def currency_dict_def

lemma listing_clean:
  "clean_data listings_conf listing_ingested = Inr listing_cleaned"
  by (simp add: listings_conf_def listing_ingested_def listing_cleaned_def eval_defs eval_clean)

lemma listing_save:
  "save_data listing_world (listing_wrangler\<lparr>df := Some listing_cleaned\<rparr>) None = (None, processed_world)"
  by (simp add: save_data_def makedirs_def to_csv_def dirname_def listing_wrangler_def
                listing_world_def processed_world_def listing_cleaned_def)

lemma save_data_files:
  "save_data w self d_arg = (r, w') \<Longrightarrow>
     (r \<noteq> None \<and> files w' = files w) \<or>
     (\<exists>d. r = None \<and> (case d_arg of None \<Rightarrow> df self | Some x \<Rightarrow> Some x) = Some d \<and>
          files w' = (files w)(processed_data_path self \<mapsto> PlainCsv (columns d) (map snd (rows d))))"
  by (auto simp: save_data_def makedirs_def to_csv_def Let_def split: sum.splits option.splits if_splits)

lemma cell_at_map: "c \<in> set ks \<Longrightarrow> cell_at ks (map f ks) c = f c"
  by (simp add: cell_at_def map_of_zip_map)

lemma drop_countries_columns: "drop_countries cs d = Inr out \<Longrightarrow> columns out = columns d"
  by (auto simp: drop_countries_def split: if_splits)

lemma dropna_columns: "dropna ks d = Inr out \<Longrightarrow> columns out = columns d"
  by (auto simp: dropna_def split: list.splits)

lemma drop_duplicates_columns: "drop_duplicates ks i d = Inr out \<Longrightarrow> columns out = columns d"
  by (auto simp: drop_duplicates_def Let_def split: if_splits option.splits list.splits)

lemma drop_rows_columns: "drop_rows conf d = Inr out \<Longrightarrow> columns out = columns d"
  by (auto simp: drop_rows_def split: sum.splits
           dest!: drop_countries_columns dropna_columns drop_duplicates_columns)

lemma drop_outliers_columns: "drop_outliers conf d = Inr out \<Longrightarrow> columns out = columns d"
  by (auto simp: drop_outliers_def split: if_splits sum.splits)

lemma select_columns_columns: "select_columns ks d = Inr out \<Longrightarrow> columns out = ks"
  by (auto simp: select_columns_def split: list.splits)

lemma drop_columns_columns:
  "drop_columns cs d = Inr out \<Longrightarrow> columns out = filter (\<lambda>k. k \<notin> set cs) (columns d)"
  by (auto simp: drop_columns_def Let_def split: list.splits)

lemma set_column_columns:
  "columns (set_column c vs d) = (if c \<in> set (columns d) then columns d else columns d @ [c])"
  by (simp add: set_column_def Let_def)

lemma standardize_currency_columns:
  assumes "standardize_currency d = Inr out"
  shows "columns out =
           filter (\<lambda>k. k \<notin> {''price'', ''currency''})
             (if ''price_usd'' \<in> set (columns d) then columns d else columns d @ [''price_usd''])"
proof -
  from assms obtain vs d' where "drop_columns [''price'', ''currency''] (set_column ''price_usd'' vs d') = Inr out"
    and "columns d' = columns d"
    by (auto simp: standardize_currency_def split: if_splits sum.splits)
  then show ?thesis
    by (auto dest!: drop_columns_columns simp: set_column_columns)
qed

lemma count_list_distinct: "distinct xs \<Longrightarrow> count_list xs x = (if x \<in> set xs then 1 else 0)"
  by (induction xs) auto

lemma standardize_currency_price_usd:
  assumes "standardize_currency d = Inr out" and "distinct (columns d)"
  shows "count_list (columns out) ''price_usd'' = 1 \<and>
         ''price'' \<notin> set (columns out) \<and> ''currency'' \<notin> set (columns out)"
proof -
  let ?cols = "if ''price_usd'' \<in> set (columns d) then columns d else columns d @ [''price_usd'']"
  have c: "columns out = filter (\<lambda>k. k \<notin> {''price'', ''currency''}) ?cols"
    using assms(1) by (rule standardize_currency_columns)
  have "distinct ?cols" using assms(2) by simp
  then have "distinct (columns out)" unfolding c by (rule distinct_filter)
  moreover have "''price_usd'' \<in> set (columns out)" unfolding c by simp
  ultimately show ?thesis
    using c by (simp add: count_list_distinct)
qed

lemma clean_data_columns:
  assumes "clean_data conf raw = Inr out"
  shows "columns out =
           filter (\<lambda>k. k \<notin> {''price'', ''currency''})
             (if ''price_usd'' \<in> set (keep_columns conf) then keep_columns conf
              else keep_columns conf @ [''price_usd''])"
proof -
  from assms obtain d1 d2 d3 where
    s: "select_columns (keep_columns conf) raw = Inr d1" and
    r: "drop_rows conf d1 = Inr d2" and
    n: "standardize_currency d2 = Inr d3" and
    t: "drop_outliers conf d3 = Inr out"
    by (auto simp: clean_data_def convert_price_to_usd_def split: sum.splits)
  show ?thesis
    using select_columns_columns [OF s] drop_rows_columns [OF r]
      standardize_currency_columns [OF n] drop_outliers_columns [OF t] by simp
qed

lemma peru_standardize: "standardize_currency peru_prices = Inr peru_normalized"
  by (simp add: peru_prices_def peru_normalized_def eval_clean eval_defs)








lemma percentile_nan:
  assumes "percentile a q = Inr p" and "NaN \<in> set a \<or> PyNone \<in> set a"
  shows "p = NaN"
  using assms by (auto simp: percentile_def list_ex_iff split: if_splits)




lemma cell_ge_NaN: "\<not> cell_ge u NaN"
  by (cases u) simp_all

lemma cell_ge_Num: "cell_ge u p \<Longrightarrow> \<exists>x. u = Num x"
  by (cases u; cases p) simp_all

lemma column_set_column:
  assumes "length ws = length (rows d)"
  shows "column (set_column c ws d) c = ws"
proof -
  let ?cols = "if c \<in> set (columns d) then columns d else columns d @ [c]"
  have c: "c \<in> set ?cols" by simp
  have "column (set_column c ws d) c =
          map (\<lambda>(r, v). cell_at ?cols (map (\<lambda>k. if k = c then v else cell_at (columns d) (snd r) k) ?cols) c)
            (zip (rows d) ws)"
    by (simp add: column_def set_column_def Let_def case_prod_unfold comp_def)
  also have "\<dots> = map (\<lambda>(r, v). v) (zip (rows d) ws)"
    using c by (simp only: cell_at_map if_True refl)
  also have "\<dots> = ws"
    using assms by (simp add: case_prod_unfold)
  finally show ?thesis .
qed

lemma drop_columns_fst:
  assumes "drop_columns cs d = Inr d'"
  shows "map fst (rows d') = map fst (rows d)"
proof -
  let ?cols = "filter (\<lambda>k. k \<notin> set cs) (columns d)"
  from assms have d': "d' = \<lparr>columns = ?cols,
      rows = map (\<lambda>r. (fst r, map (cell_at (columns d) (snd r)) ?cols)) (rows d)\<rparr>"
    by (auto simp: drop_columns_def Let_def split: list.splits)
  show ?thesis unfolding d' by (simp add: comp_def)
qed

lemma set_column_fst:
  assumes "length ws = length (rows d)"
  shows "map fst (rows (set_column c ws d)) = map fst (rows d)"
proof -
  have "map fst (rows (set_column c ws d)) = map (\<lambda>x. fst (fst x)) (zip (rows d) ws)"
    by (simp add: set_column_def Let_def comp_def case_prod_unfold)
  also have "\<dots> = map fst (map fst (zip (rows d) ws))"
    by (simp only: map_map comp_def)
  also have "\<dots> = map fst (rows d)"
    using assms by (simp only: map_fst_zip)
  finally show ?thesis .
qed

lemma column_drop_columns:
  assumes "drop_columns cs d = Inr d'" and "c \<notin> set cs" and "c \<in> set (columns d)"
  shows "column d' c = column d c"
proof -
  let ?cols = "filter (\<lambda>k. k \<notin> set cs) (columns d)"
  from assms(1) have d': "d' = \<lparr>columns = ?cols,
      rows = map (\<lambda>r. (fst r, map (cell_at (columns d) (snd r)) ?cols)) (rows d)\<rparr>"
    by (auto simp: drop_columns_def Let_def split: list.splits)
  have c: "c \<in> set ?cols" using assms(2,3) by simp
  show ?thesis
    unfolding d' column_def using c by (simp add: comp_def cell_at_map del: set_filter)
qed

lemma standardize_currency_rows:
  assumes "standardize_currency d = Inr d1" and "rows d \<noteq> []"
  shows "\<exists>vs. map (\<lambda>r. convert_to_usd (cell_at (columns d) (snd r) ''price'')
                                     (cell_at (columns d) (snd r) ''currency'')) (rows d) = map Inr vs \<and>
              column d1 ''price_usd'' = infer_series vs \<and>
              map fst (rows d1) = map fst (rows d)"
proof -
  let ?res = "map (\<lambda>r. convert_to_usd (cell_at (columns d) (snd r) ''price'')
                                     (cell_at (columns d) (snd r) ''currency'')) (rows d)"
  have ne: "\<not> df_empty d"
  proof
    assume e: "df_empty d"
    with assms(2) have "columns d = []" by (simp add: df_empty_def)
    with e assms(1) show False by (simp add: standardize_currency_def)
  qed
  then have eq: "standardize_currency d =
      (case apply_convert d of
         Inl e \<Rightarrow> Inl e
       | Inr vs \<Rightarrow> drop_columns [''price'', ''currency''] (set_column ''price_usd'' (infer_series vs) d))"
    by (simp add: standardize_currency_def)
  obtain vs where
    ap: "apply_convert d = Inr vs" and
    dc: "drop_columns [''price'', ''currency''] (set_column ''price_usd'' (infer_series vs) d) = Inr d1"
  proof (cases "apply_convert d")
    case (Inl e)
    with eq assms(1) show ?thesis by simp
  next
    case (Inr vs)
    with eq assms(1) that show ?thesis by simp
  qed
  have "apply_convert d = collect ?res"
  proof (rule ccontr)
    assume "apply_convert d \<noteq> collect ?res"
    then have "\<exists>e. apply_convert d = Inl e" unfolding apply_convert_def by (simp split: if_splits)
    with ap show False by simp
  qed
  with ap have "collect ?res = Inr vs" by simp
  then have m: "?res = map Inr vs"
    by (rule collect_Inr)
  have "length ?res = length (map Inr vs :: (error + cell) list)" unfolding m ..
  then have "length (rows d) = length vs" by simp
  then have len: "length (infer_series vs) = length (rows d)" by (simp add: infer_series_def)
  have "column d1 ''price_usd'' = column (set_column ''price_usd'' (infer_series vs) d) ''price_usd''"
    using dc by (rule column_drop_columns) (simp_all add: set_column_columns)
  also have "\<dots> = infer_series vs" using len by (rule column_set_column)
  finally have c: "column d1 ''price_usd'' = infer_series vs" .
  have "map fst (rows d1) = map fst (rows (set_column ''price_usd'' (infer_series vs) d))"
    using dc by (rule drop_columns_fst)
  also have "\<dots> = map fst (rows d)"
    using len by (rule set_column_fst)
  finally show ?thesis using m c by blast
qed

lemma unknown_currency_None:
  "\<forall>code. c = Str code \<longrightarrow> map_of currency_dict code = None \<Longrightarrow> convert_to_usd a c = Inr PyNone"
  by (cases c) simp_all

lemma infer_series_None:
  "PyNone \<in> set vs \<Longrightarrow> PyNone \<in> set (infer_series vs) \<or> NaN \<in> set (infer_series vs)"
  by (auto simp: infer_series_def)





lemma listings_convert: "convert_price_to_usd listings_conf listings_filtered = Inr listings_priced"
  by (simp add: listings_conf_def listings_filtered_def listings_priced_def eval_clean eval_defs)

lemma peru_convert: "convert_price_to_usd listings_conf peru_prices = Inr (peru_normalized\<lparr>rows := []\<rparr>)"
  by (simp add: convert_price_to_usd_def peru_standardize)
     (simp add: listings_conf_def peru_normalized_def drop_outliers_def percentile_def column_def
                cell_at_def is_str_def)

section \<open>Properties of the Row Filter\<close>

text \<open>
  C1 (amended). When the Row Filter succeeds, its records are the first occurrences by key among
  the records that pass both the category rule and the missing-value rule: the near-duplicate
  rule sees the survivors of the two row-wise rules, not the unfiltered data. The result is the
  same when the missing-value rule fires before the category rule, and every record that
  survives the three criteria evaluated independently on the unfiltered data is in it.
\<close>

theorem drop_rows_sequential:
  assumes "drop_rows conf d = Inr out"
  shows "map snd (rows out) =
           keep_first (key_of conf (columns d)) []
             (filter (\<lambda>vs. category_ok conf (columns d) vs \<and> required_ok conf (columns d) vs)
                (map snd (rows d))) \<and>
         drop_rows_nan_first conf d = Inr out \<and>
         set (independent_survivors conf d) \<subseteq> set (map snd (rows out))"
proof -
  let ?cat = "category_ok conf (columns d)"
  let ?req = "required_ok conf (columns d)"
  let ?ks = "drop_rows_duplicates conf"
  define d2 where "d2 = d\<lparr>rows := reset_index (filter (\<lambda>r. ?req (snd r)) (filter (\<lambda>r. ?cat (snd r)) (rows d)))\<rparr>"
  define d2' where "d2' = d\<lparr>rows := filter (\<lambda>r. ?cat (snd r)) (reset_index (filter (\<lambda>r. ?req (snd r)) (rows d)))\<rparr>"
  from assms have l1: "''l1'' \<in> set (columns d)"
    by (auto simp: drop_rows_def drop_countries_def split: if_splits)
  from assms l1 have nanl: "missing_labels d (drop_rows_nan conf) = []"
    by (auto simp: drop_rows_def drop_countries_def dropna_def missing_labels_def
             split: list.splits sum.splits)
  have s1: "drop_rows conf d = drop_duplicates (Some ?ks) True d2"
    using l1 nanl
    by (simp add: drop_rows_def drop_countries_def dropna_def missing_labels_def d2_def
                  category_ok_def required_ok_def)
  have s2: "drop_rows_nan_first conf d = drop_duplicates (Some ?ks) True d2'"
    using l1 nanl
    by (simp add: drop_rows_nan_first_def drop_countries_def dropna_def missing_labels_def d2'_def
                  category_ok_def required_ok_def)
  have cols: "columns d2 = columns d" "columns d2' = columns d" "columns d2 \<noteq> []"
    using l1 by (auto simp: d2_def d2'_def)
  have v2: "map snd (rows d2) = filter (\<lambda>vs. ?cat vs \<and> ?req vs) (map snd (rows d))"
    using map_snd_filter [of "\<lambda>vs. ?cat vs \<and> ?req vs" "rows d"]
    by (simp add: d2_def map_snd_reset_index conj_commute)
  have v2': "map snd (rows d2') = filter (\<lambda>vs. ?cat vs \<and> ?req vs) (map snd (rows d))"
    using map_snd_filter [of ?cat "reset_index (filter (\<lambda>r. ?req (snd r)) (rows d))"]
          map_snd_filter [of ?req "rows d"]
    by (simp add: d2'_def map_snd_reset_index conj_commute)
  have same: "drop_duplicates (Some ?ks) True d2 = drop_duplicates (Some ?ks) True d2'"
    using l1 by (intro drop_duplicates_vals_cong) (auto simp: cols(1,2) v2 v2')
  from assms s1 have o: "drop_duplicates (Some ?ks) True d2 = Inr out" by simp
  have a: "map snd (rows out) =
           keep_first (key_of conf (columns d)) []
             (filter (\<lambda>vs. ?cat vs \<and> ?req vs) (map snd (rows d)))"
    using drop_duplicates_vals [OF o cols(3)] by (simp add: cols v2 key_of_def [abs_def])
  have c: "set (independent_survivors conf d) \<subseteq> set (map snd (rows out))"
    unfolding a independent_survivors_def
    using independent_in_sequential [of "[]" "[]" "\<lambda>vs. ?cat vs \<and> ?req vs" "key_of conf (columns d)" "map snd (rows d)"]
    by simp
  from a s2 same o c show ?thesis by simp
qed

theorem drop_rows_sequential_witness:
  "drop_rows listings_conf listings = Inr listings_filtered \<and>
   drop_rows_nan_first listings_conf listings = Inr listings_filtered \<and>
   set (independent_survivors listings_conf listings) \<subseteq> set (map snd (rows listings_filtered))"
proof -
  have h: "drop_rows listings_conf listings = Inr listings_filtered"
    by (simp add: listings_conf_def listings_def listings_filtered_def eval_defs)
  from drop_rows_sequential [OF h] h show ?thesis by blast
qed

text \<open>
  C1 as stated fails: in the example the listing b is kept by the Row Filter, since the
  listing a with the same coordinates is removed first for its country, while against the
  unfiltered data b is a duplicate of a; the independent criteria keep the listing f only.
\<close>

theorem drop_rows_independent_counterexample:
  "drop_rows listings_conf listings = Inr listings_filtered \<and>
   set (map snd (rows listings_filtered)) \<noteq> set (independent_survivors listings_conf listings)"
  by (simp add: listings_conf_def listings_def listings_filtered_def eval_defs)

section \<open>Properties of the Ingestor\<close>



section \<open>Properties of the run\<close>

text \<open>
  C9. When the ingestion fails (a raw file cannot be read) or the cleaning fails (a configured
  column is missing, the normalization raises), \<^verbatim>\<open>wrangle_data\<close> raises that error and leaves the
  file system as it was. Whatever the outcome, either the run fails and no file has changed, or
  it succeeds and the only change of the files is the artifact at the processed path, holding
  exactly the columns and values of the cleaned data.
\<close>

theorem wrangle_data_all_or_nothing:
  "(\<forall>e. ingest_data w self = Inl e \<longrightarrow> wrangle_data conf w self = (Inl e, self, w)) \<and>
   (\<forall>d e. ingest_data w self = Inr d \<and> clean_data conf d = Inl e \<longrightarrow>
      wrangle_data conf w self = (Inl e, self, w)) \<and>
   (\<forall>res self' w'. wrangle_data conf w self = (res, self', w') \<longrightarrow>
      (\<exists>e. res = Inl e \<and> files w' = files w) \<or>
      (\<exists>d out. res = Inr out \<and> ingest_data w self = Inr d \<and> clean_data conf d = Inr out \<and>
         files w' = (files w)(processed_data_path self \<mapsto> PlainCsv (columns out) (map snd (rows out)))))"
proof (intro conjI allI impI)
  fix e assume "ingest_data w self = Inl e"
  then show "wrangle_data conf w self = (Inl e, self, w)"
    by (simp add: wrangle_data_def)
next
  fix d e assume "ingest_data w self = Inr d \<and> clean_data conf d = Inl e"
  then show "wrangle_data conf w self = (Inl e, self, w)"
    by (simp add: wrangle_data_def)
next
  fix res self' w' assume run: "wrangle_data conf w self = (res, self', w')"
  show "(\<exists>e. res = Inl e \<and> files w' = files w) \<or>
      (\<exists>d out. res = Inr out \<and> ingest_data w self = Inr d \<and> clean_data conf d = Inr out \<and>
         files w' = (files w)(processed_data_path self \<mapsto> PlainCsv (columns out) (map snd (rows out))))"
  proof (cases "ingest_data w self")
    case (Inl e)
    with run have "res = Inl e" and "w' = w" by (simp_all add: wrangle_data_def)
    then show ?thesis by simp
  next
    case (Inr d)
    note ing = this
    show ?thesis
    proof (cases "clean_data conf d")
      case (Inl e)
      with ing run have "res = Inl e" and "w' = w" by (simp_all add: wrangle_data_def)
      then show ?thesis by simp
    next
      case (Inr out)
      obtain r w1 where sv: "save_data w (self\<lparr>df := Some out\<rparr>) None = (r, w1)"
        by (cases "save_data w (self\<lparr>df := Some out\<rparr>) None") auto
      from save_data_files [OF sv] ing Inr run sv show ?thesis
        by (auto simp: wrangle_data_def Let_def split: option.splits)
    qed
  qed
qed

theorem wrangle_data_all_or_nothing_witness:
  "ingest_data listing_world missing_wrangler = Inl (FileNotFoundError ''data/raw/co.zip'') \<and>
   wrangle_data listings_conf listing_world missing_wrangler =
     (Inl (FileNotFoundError ''data/raw/co.zip''), missing_wrangler, listing_world) \<and>
   wrangle_data listings_conf listing_world listing_wrangler =
     (Inr listing_cleaned, listing_wrangler\<lparr>df := Some listing_cleaned\<rparr>, processed_world) \<and>
   files processed_world =
     (files listing_world)(''data/processed/clean.csv'' \<mapsto>
        PlainCsv (columns listing_cleaned) (map snd (rows listing_cleaned)))"
proof -
  have a: "ingest_data listing_world missing_wrangler = Inl (FileNotFoundError ''data/raw/co.zip'')"
    by (simp add: ingest_data_def listing_world_def missing_wrangler_def read_csv_def cell_at_def)
  have b: "wrangle_data listings_conf listing_world listing_wrangler =
     (Inr listing_cleaned, listing_wrangler\<lparr>df := Some listing_cleaned\<rparr>, processed_world)"
    by (simp add: wrangle_data_def listing_ingest listing_clean listing_save)
  have c: "files processed_world =
     (files listing_world)(''data/processed/clean.csv'' \<mapsto>
        PlainCsv (columns listing_cleaned) (map snd (rows listing_cleaned)))"
    by (simp add: processed_world_def listing_cleaned_def)
  from wrangle_data_all_or_nothing [of listing_world missing_wrangler listings_conf] a
  have "wrangle_data listings_conf listing_world missing_wrangler =
     (Inl (FileNotFoundError ''data/raw/co.zip''), missing_wrangler, listing_world)"
    by blast
  with a b c show ?thesis by blast
qed

text \<open>
  C8 fails on the code. Once the artifact exists at the processed path, making the wrangler
  fails: \<^verbatim>\<open>__post_init__\<close> passes \<^verbatim>\<open>index=False\<close> to \<^verbatim>\<open>pd.read_csv\<close>, which has no such
  parameter, so the run raises a \<^verbatim>\<open>TypeError\<close>, in reuse mode too, and returns no dataset.
\<close>

theorem post_init_existing_artifact:
  assumes "path_exists w (processed_data_path self)"
  shows "post_init w self = Inl TypeError \<and> run conf w self use_exist = (Inl TypeError, w)"
  using assms by (simp add: run_def post_init_def)

theorem post_init_existing_artifact_witness:
  "path_exists processed_world (processed_data_path listing_wrangler) \<and>
   post_init processed_world listing_wrangler = Inl TypeError \<and>
   run listings_conf processed_world listing_wrangler True = (Inl TypeError, processed_world)"
proof -
  have h: "path_exists processed_world (processed_data_path listing_wrangler)"
    by (simp add: path_exists_def processed_world_def listing_wrangler_def)
  from post_init_existing_artifact [OF h] h show ?thesis by simp
qed

section \<open>Properties of the Currency Normalizer and the Outlier Trimmer\<close>

text \<open>
  C3. When the Currency Normalizer succeeds on a frame with unique column labels, the
  columns of its result have exactly one normalized-price column \<^verbatim>\<open>price_usd\<close> and neither
  \<^verbatim>\<open>price\<close> nor \<^verbatim>\<open>currency\<close>; when \<^verbatim>\<open>clean_data\<close> succeeds with unique kept columns, the
  column set of its result is the kept columns minus price and currency plus the normalized
  price.
\<close>

theorem price_columns:
  "(\<forall>out. standardize_currency d = Inr out \<and> distinct (columns d) \<longrightarrow>
      count_list (columns out) ''price_usd'' = 1 \<and>
      ''price'' \<notin> set (columns out) \<and> ''currency'' \<notin> set (columns out)) \<and>
   (\<forall>out. clean_data conf raw = Inr out \<and> distinct (keep_columns conf) \<longrightarrow>
      set (columns out) = set (keep_columns conf) - {''price'', ''currency''} \<union> {''price_usd''} \<and>
      count_list (columns out) ''price_usd'' = 1)"
proof -
  have a: "count_list (columns out) ''price_usd'' = 1 \<and>
      ''price'' \<notin> set (columns out) \<and> ''currency'' \<notin> set (columns out)"
    if "standardize_currency d = Inr out \<and> distinct (columns d)" for out
    using that standardize_currency_price_usd by blast
  have b: "set (columns out) = set (keep_columns conf) - {''price'', ''currency''} \<union> {''price_usd''} \<and>
      count_list (columns out) ''price_usd'' = 1"
    if h: "clean_data conf raw = Inr out \<and> distinct (keep_columns conf)" for out
  proof -
    let ?cols = "if ''price_usd'' \<in> set (keep_columns conf) then keep_columns conf
                 else keep_columns conf @ [''price_usd'']"
    have c: "columns out = filter (\<lambda>k. k \<notin> {''price'', ''currency''}) ?cols"
      using h clean_data_columns by blast
    have "distinct ?cols" using h by simp
    then have "distinct (columns out)" unfolding c by (rule distinct_filter)
    moreover have "''price_usd'' \<in> set (columns out)" unfolding c by simp
    ultimately have "count_list (columns out) ''price_usd'' = 1"
      by (simp add: count_list_distinct)
    moreover have "set (columns out) = set (keep_columns conf) - {''price'', ''currency''} \<union> {''price_usd''}"
      unfolding c by auto
    ultimately show ?thesis by simp
  qed
  from a b show ?thesis by blast
qed

theorem price_columns_witness:
  "standardize_currency peru_prices = Inr peru_normalized \<and> distinct (columns peru_prices) \<and>
   count_list (columns peru_normalized) ''price_usd'' = 1 \<and>
   ''price'' \<notin> set (columns peru_normalized) \<and> ''currency'' \<notin> set (columns peru_normalized) \<and>
   clean_data listings_conf listing_ingested = Inr listing_cleaned \<and>
   distinct (keep_columns listings_conf) \<and>
   set (columns listing_cleaned) =
     set (keep_columns listings_conf) - {''price'', ''currency''} \<union> {''price_usd''}"
proof -
  have d1: "distinct (columns peru_prices)" by (simp add: peru_prices_def)
  have d2: "distinct (keep_columns listings_conf)" by (simp add: listings_conf_def)
  from price_columns [of peru_prices listings_conf listing_ingested] peru_standardize listing_clean d1 d2
  show ?thesis by blast
qed

text \<open>
  C10. When the combined normalize-and-trim step succeeds, every record of its result has a
  number as normalized price; and when some record of the input has a currency that is no key
  of the exchange-rate table, the result has no record at all (the percentile bounds are NaN),
  so that record in particular is not in it.
\<close>

theorem convert_price_to_usd_no_missing:
  assumes "convert_price_to_usd conf d = Inr out"
  shows "(\<forall>r\<in>set (rows out). \<exists>x. cell_at (columns out) (snd r) ''price_usd'' = Num x) \<and>
         ((\<exists>r\<in>set (rows d). \<forall>code. cell_at (columns d) (snd r) ''currency'' = Str code \<longrightarrow>
                                   map_of currency_dict code = None) \<longrightarrow>
          rows out = [])"
proof -
  from assms obtain d1 where
    n: "standardize_currency d = Inr d1" and t: "drop_outliers conf d1 = Inr out"
    by (auto simp: convert_price_to_usd_def split: sum.splits)
  from t obtain p_lo p_hi where
    lo: "percentile (column d1 ''price_usd'') (price_lower conf) = Inr p_lo" and
    out: "out = d1\<lparr>rows := filter (\<lambda>r. cell_ge (cell_at (columns d1) (snd r) ''price_usd'') p_lo \<and>
                                     cell_le (cell_at (columns d1) (snd r) ''price_usd'') p_hi) (rows d1)\<rparr>"
    by (auto simp: drop_outliers_def split: if_splits sum.splits)
  have a: "\<forall>r\<in>set (rows out). \<exists>x. cell_at (columns out) (snd r) ''price_usd'' = Num x"
    unfolding out by (auto dest: cell_ge_Num)
  have b: "rows out = []"
    if "\<exists>r\<in>set (rows d). \<forall>code. cell_at (columns d) (snd r) ''currency'' = Str code \<longrightarrow>
                                   map_of currency_dict code = None"
  proof -
    from that obtain r where r: "r \<in> set (rows d)" and
      "\<forall>code. cell_at (columns d) (snd r) ''currency'' = Str code \<longrightarrow> map_of currency_dict code = None"
      by blast
    then have cr: "convert_to_usd (cell_at (columns d) (snd r) ''price'')
                     (cell_at (columns d) (snd r) ''currency'') = Inr PyNone"
      by (rule_tac unknown_currency_None)
    from r have "rows d \<noteq> []" by auto
    with n obtain vs where
      m: "map (\<lambda>r. convert_to_usd (cell_at (columns d) (snd r) ''price'')
                                     (cell_at (columns d) (snd r) ''currency'')) (rows d) = map Inr vs" and
      c: "column d1 ''price_usd'' = infer_series vs"
      using standardize_currency_rows by blast
    have "Inr PyNone \<in> set (map (\<lambda>r. convert_to_usd (cell_at (columns d) (snd r) ''price'')
                                     (cell_at (columns d) (snd r) ''currency'')) (rows d))"
      unfolding set_map using cr [symmetric] r by (rule image_eqI)
    then have "PyNone \<in> set vs" unfolding m by auto
    then have "PyNone \<in> set (infer_series vs) \<or> NaN \<in> set (infer_series vs)"
      by (rule infer_series_None)
    then have "p_lo = NaN" using lo c percentile_nan by auto
    then show ?thesis unfolding out by (simp add: cell_ge_NaN)
  qed
  from a b show ?thesis by blast
qed






theorem convert_price_to_usd_no_missing_witness:
  "convert_price_to_usd listings_conf listings_filtered = Inr listings_priced \<and>
   map (\<lambda>r. cell_at (columns listings_priced) (snd r) ''price_usd'') (rows listings_priced) =
     [Num 28.63, Num 23.9] \<and>
   cell_at (columns peru_prices) [Str ''Peru'', Num 50, Str ''EUR''] ''currency'' = Str ''EUR'' \<and>
   map_of currency_dict ''EUR'' = None \<and>
   convert_price_to_usd listings_conf peru_prices = Inr (peru_normalized\<lparr>rows := []\<rparr>)"
proof -
  have a: "map (\<lambda>r. cell_at (columns listings_priced) (snd r) ''price_usd'') (rows listings_priced) =
     [Num 28.63, Num 23.9]"
    by (simp add: listings_priced_def cell_at_def)
  have b: "cell_at (columns peru_prices) [Str ''Peru'', Num 50, Str ''EUR''] ''currency'' = Str ''EUR''"
    "map_of currency_dict ''EUR'' = None"
    by (simp_all add: peru_prices_def cell_at_def currency_dict_def)
  from convert_price_to_usd_no_missing [OF listings_convert]
       convert_price_to_usd_no_missing [OF peru_convert] listings_convert peru_convert a b
  show ?thesis by simp
qed

end
